theory Spec2Isabelle
  imports Main "HOL-Library.Word"
begin

section \<open>Data model\<close>

text \<open>
  The program is \<^verbatim>\<open>src/http_request.c\<close>: the write callback \<^verbatim>\<open>write_data\<close> and the
  function \<^verbatim>\<open>http_get\<close>, which drives a libcurl easy handle. The C types are modelled
  as follows (LP64 data model):
  \<^item> \<^verbatim>\<open>size_t\<close> is a machine word, so that \<^verbatim>\<open>size * nmemb\<close> wraps as in C;
    \<^verbatim>\<open>write_data\<close> is kept polymorphic in the width, \<^verbatim>\<open>http_get\<close> uses 64 bits;
  \<^item> \<^verbatim>\<open>long\<close> is \<open>int\<close>: the code only stores and returns it, no arithmetic;
  \<^item> \<^verbatim>\<open>CURLcode\<close> is the numeric value of the enum, \<^verbatim>\<open>CURLE_OK\<close> being 0;
  \<^item> \<^verbatim>\<open>void *buffer\<close> is the sequence of bytes it points to, \<^verbatim>\<open>void *userp\<close> an
    optional address (\<open>None\<close> is \<^verbatim>\<open>NULL\<close>);
  \<^item> \<^verbatim>\<open>CURL *\<close> is an optional handle (\<open>None\<close> is \<^verbatim>\<open>NULL\<close>); the handle is
    threaded through the calls that modify it.
\<close>

type_synonym byte = "8 word"
type_synonym size_t = "64 word"
type_synonym long = int
type_synonym CURLcode = nat
type_synonym userp = "nat option"

type_synonym write_callback = "byte list \<Rightarrow> size_t \<Rightarrow> size_t \<Rightarrow> userp \<Rightarrow> size_t"

definition CURLE_OK :: CURLcode where
  "CURLE_OK = 0"

definition CURLE_URL_MALFORMAT :: CURLcode where
  "CURLE_URL_MALFORMAT = 3"

definition CURLE_COULDNT_RESOLVE_HOST :: CURLcode where
  "CURLE_COULDNT_RESOLVE_HOST = 6"

definition CURLE_COULDNT_CONNECT :: CURLcode where
  "CURLE_COULDNT_CONNECT = 7"

definition CURLE_WRITE_ERROR :: CURLcode where
  "CURLE_WRITE_ERROR = 23"

definition CURLE_OPERATION_TIMEDOUT :: CURLcode where
  "CURLE_OPERATION_TIMEDOUT = 28"

definition CURLE_SSL_CONNECT_ERROR :: CURLcode where
  "CURLE_SSL_CONNECT_ERROR = 35"

text \<open>The easy handle: the options the program sets and the response code it reads back.\<close>

record CURL =
  opt_url :: "string option"
  opt_writefunction :: "write_callback option"
  opt_writedata :: userp
  info_response_code :: long

text \<open>
  What the process can observe of a run: the handles obtained from and given back to the
  library, the requests issued (one entry per \<^verbatim>\<open>curl_easy_perform\<close> that reaches the
  network, with its URL), the body bytes the write callback has acknowledged, and the two
  output streams.
\<close>

record world =
  acquired :: nat
  released :: nat
  requests :: "string list"
  body_received :: nat
  stdout :: "byte list"
  stderr :: string

definition open_handles :: "world \<Rightarrow> int" where
  "open_handles w = int (acquired w) - int (released w)"

subsection \<open>The HTTP client library as a parameter\<close>

text \<open>
  libcurl is not part of the repository. Its behaviour is a parameter of the model, with
  no constraint on it: whether \<^verbatim>\<open>curl_easy_init\<close> yields a handle, what a GET to a given
  URL ends with (the transport's result code, the body chunks it hands over, the status
  code of the response, 0 when no HTTP response was read), and the text
  \<^verbatim>\<open>curl_easy_strerror\<close> gives for a result code.
\<close>

record transfer =
  outcome :: CURLcode
  chunks :: "byte list list"
  response_code :: long

record curl_env =
  init_ok :: bool
  network :: "string \<Rightarrow> transfer"
  strerror :: "CURLcode \<Rightarrow> string"

definition curl_easy_init :: "curl_env \<Rightarrow> world \<Rightarrow> CURL option \<times> world" where
  "curl_easy_init env w =
     (if init_ok env
      then (Some \<lparr>opt_url = None, opt_writefunction = None, opt_writedata = None,
                  info_response_code = 0\<rparr>,
            w\<lparr>acquired := acquired w + 1\<rparr>)
      else (None, w))"

definition curl_easy_setopt_URL :: "CURL \<Rightarrow> string \<Rightarrow> CURL" where
  "curl_easy_setopt_URL c u = c\<lparr>opt_url := Some u\<rparr>"

definition curl_easy_setopt_WRITEFUNCTION :: "CURL \<Rightarrow> write_callback \<Rightarrow> CURL" where
  "curl_easy_setopt_WRITEFUNCTION c f = c\<lparr>opt_writefunction := Some f\<rparr>"

definition curl_easy_setopt_WRITEDATA :: "CURL \<Rightarrow> userp \<Rightarrow> CURL" where
  "curl_easy_setopt_WRITEDATA c p = c\<lparr>opt_writedata := p\<rparr>"

text \<open>
  The library hands the body to the write callback chunk by chunk, as
  \<^verbatim>\<open>callback(ptr, 1, len, userdata)\<close>. A callback that returns a count other than
  \<^verbatim>\<open>len\<close> aborts the transfer. Without a callback the library writes the chunk to
  the standard output.
\<close>

fun deliver :: "CURL \<Rightarrow> byte list list \<Rightarrow> world \<Rightarrow> bool \<times> world" where
  "deliver c [] w = (True, w)"
| "deliver c (chunk # rest) w =
     (case opt_writefunction c of
        None \<Rightarrow>
          deliver c rest
            (w\<lparr>body_received := body_received w + length chunk, stdout := stdout w @ chunk\<rparr>)
      | Some f \<Rightarrow>
          if f chunk 1 (of_nat (length chunk)) (opt_writedata c) = of_nat (length chunk)
          then deliver c rest (w\<lparr>body_received := body_received w + length chunk\<rparr>)
          else (False, w))"

definition curl_easy_perform ::
  "curl_env \<Rightarrow> CURL \<Rightarrow> world \<Rightarrow> CURLcode \<times> CURL \<times> world" where
  "curl_easy_perform env c w =
     (case opt_url c of
        None \<Rightarrow> (CURLE_URL_MALFORMAT, c, w)
      | Some u \<Rightarrow>
          (let t = network env u;
               c' = c\<lparr>info_response_code := response_code t\<rparr>;
               (accepted, w') = deliver c' (chunks t) (w\<lparr>requests := requests w @ [u]\<rparr>)
           in (if accepted then outcome t else CURLE_WRITE_ERROR, c', w')))"

definition curl_easy_strerror :: "curl_env \<Rightarrow> CURLcode \<Rightarrow> string" where
  "curl_easy_strerror env res = strerror env res"

definition curl_easy_getinfo_RESPONSE_CODE :: "CURL \<Rightarrow> long" where
  "curl_easy_getinfo_RESPONSE_CODE c = info_response_code c"

definition curl_easy_cleanup :: "CURL \<Rightarrow> world \<Rightarrow> world" where
  "curl_easy_cleanup c w = w\<lparr>released := released w + 1\<rparr>"

definition fprintf_stderr :: "string \<Rightarrow> world \<Rightarrow> world" where
  "fprintf_stderr s w = w\<lparr>stderr := stderr w @ s\<rparr>"

section \<open>The program\<close>

text \<open>
  \<^verbatim>\<open>size_t write_data(void *buffer, size_t size, size_t nmemb, void *userp)
  { return size * nmemb; }\<close>
\<close>

definition write_data :: "byte list \<Rightarrow> 'w::len word \<Rightarrow> 'w word \<Rightarrow> userp \<Rightarrow> 'w word" where
  "write_data buffer sz nmemb userp = sz * nmemb"

text \<open>
  \<^verbatim>\<open>long http_get(const char *url)\<close>: \<open>http_code\<close> starts at 0; with a handle, the three
  options are set and the transfer is performed; a result other than \<^verbatim>\<open>CURLE_OK\<close> prints
  \<^verbatim>\<open>"curl_easy_perform() failed: %s\n"\<close> to the standard error, \<^verbatim>\<open>CURLE_OK\<close> reads the
  response code into \<open>http_code\<close>; the handle is cleaned up; \<open>http_code\<close> is returned.
\<close>

definition http_get :: "curl_env \<Rightarrow> string \<Rightarrow> world \<Rightarrow> long \<times> world" where
  "http_get env url w =
     (let http_code = 0;
          (curl, w1) = curl_easy_init env w
      in case curl of
           None \<Rightarrow> (http_code, w1)
         | Some c0 \<Rightarrow>
             (let c1 = curl_easy_setopt_URL c0 url;
                  c2 = curl_easy_setopt_WRITEFUNCTION c1 write_data;
                  c3 = curl_easy_setopt_WRITEDATA c2 None;
                  (res, c4, w2) = curl_easy_perform env c3 w1;
                  (http_code', w3) =
                    (if res \<noteq> CURLE_OK
                     then (http_code,
                           fprintf_stderr
                             (''curl_easy_perform() failed: '' @ curl_easy_strerror env res
                                @ [CHR 0x0A]) w2)
                     else (curl_easy_getinfo_RESPONSE_CODE c4, w2));
                  w4 = curl_easy_cleanup c4 w3
              in (http_code', w4)))"

section \<open>Sample library behaviours\<close>

text \<open>
  Concrete behaviours of the library, used to run the model: a local server answering 404
  on two paths with different bodies and 204 with no body, a local file (a transfer that
  succeeds without any HTTP response, so the response code stays 0), a host that times
  out, and every other host unresolvable.
\<close>

definition example_network :: "string \<Rightarrow> transfer" where
  "example_network u =
     (if u = ''http://localhost:8080/missing''
      then \<lparr>outcome = CURLE_OK,
            chunks = [[0x4E, 0x6F, 0x74], [0x20, 0x46, 0x6F, 0x75, 0x6E, 0x64]],
            response_code = 404\<rparr>
      else if u = ''http://localhost:8080/gone''
      then \<lparr>outcome = CURLE_OK, chunks = [[0x3C, 0x68, 0x31, 0x3E]], response_code = 404\<rparr>
      else if u = ''http://localhost:8080/empty''
      then \<lparr>outcome = CURLE_OK, chunks = [], response_code = 204\<rparr>
      else if u = ''file:///etc/hostname''
      then \<lparr>outcome = CURLE_OK, chunks = [[0x62, 0x6F, 0x78, 0x0A]], response_code = 0\<rparr>
      else if u = ''https://slow.example/''
      then \<lparr>outcome = CURLE_OPERATION_TIMEDOUT, chunks = [], response_code = 0\<rparr>
      else \<lparr>outcome = CURLE_COULDNT_RESOLVE_HOST, chunks = [], response_code = 0\<rparr>)"

definition example_strerror :: "CURLcode \<Rightarrow> string" where
  "example_strerror res =
     (if res = CURLE_COULDNT_RESOLVE_HOST then ''Could not resolve hostname''
      else if res = CURLE_OPERATION_TIMEDOUT then ''Timeout was reached''
      else ''Unknown error'')"

definition example_env :: curl_env where
  "example_env = \<lparr>init_ok = True, network = example_network, strerror = example_strerror\<rparr>"

definition env_no_handle :: curl_env where
  "env_no_handle = \<lparr>init_ok = False, network = example_network, strerror = example_strerror\<rparr>"

definition world0 :: world where
  "world0 = \<lparr>acquired = 0, released = 0, requests = [], body_received = 0,
             stdout = [], stderr = []\<rparr>"

section \<open>What a call does\<close>

text \<open>
  With \<^verbatim>\<open>write_data\<close> as its callback, the library gets every chunk acknowledged in
  full: the transfer is never aborted by the callback, and nothing reaches the standard
  output.
\<close>

lemma deliver_write_data:
  "opt_writefunction c = Some write_data \<Longrightarrow>
   deliver c cs w = (True, w\<lparr>body_received := body_received w + sum_list (map length cs)\<rparr>)"
proof (induction cs arbitrary: w)
  case Nil
  show ?case by simp
next
  case (Cons chunk rest)
  have ack: "write_data chunk 1 (of_nat (length chunk) :: size_t) (opt_writedata c)
               = of_nat (length chunk)"
    by (simp add: write_data_def)
  show ?case
    using Cons.prems ack by (simp add: Cons.IH [OF Cons.prems] add.assoc)
qed

text \<open>
  So the result of \<^verbatim>\<open>curl_easy_perform\<close> on the handle \<^verbatim>\<open>http_get\<close> prepares is the
  transport's result for the URL.
\<close>

lemma perform_write_data:
  "opt_url c = Some u \<Longrightarrow> opt_writefunction c = Some write_data \<Longrightarrow>
   curl_easy_perform env c w =
     (outcome (network env u), c\<lparr>info_response_code := response_code (network env u)\<rparr>,
      w\<lparr>requests := requests w @ [u],
        body_received := body_received w + sum_list (map length (chunks (network env u)))\<rparr>)"
  by (simp add: curl_easy_perform_def Let_def deliver_write_data)

text \<open>The two paths through \<^verbatim>\<open>http_get\<close>: no handle, and a handle.\<close>

lemma http_get_no_handle: "\<not> init_ok env \<Longrightarrow> http_get env url w = (0, w)"
  by (simp add: http_get_def curl_easy_init_def)

lemma http_get_handle:
  assumes "init_ok env"
  shows "http_get env url w =
     (if outcome (network env url) = CURLE_OK then response_code (network env url) else 0,
      w\<lparr>acquired := acquired w + 1,
        released := released w + 1,
        requests := requests w @ [url],
        body_received := body_received w + sum_list (map length (chunks (network env url))),
        stderr := (if outcome (network env url) = CURLE_OK then stderr w
                   else stderr w @ ''curl_easy_perform() failed: ''
                          @ strerror env (outcome (network env url)) @ [CHR 0x0A])\<rparr>)"
  using assms
  by (simp add: http_get_def curl_easy_init_def curl_easy_setopt_URL_def
      curl_easy_setopt_WRITEFUNCTION_def curl_easy_setopt_WRITEDATA_def
      perform_write_data curl_easy_strerror_def curl_easy_getinfo_RESPONSE_CODE_def
      curl_easy_cleanup_def fprintf_stderr_def Let_def)

lemma http_get_open_handles: "open_handles (snd (http_get env url w)) = open_handles w"
  by (cases "init_ok env") (simp_all add: http_get_handle http_get_no_handle open_handles_def)

lemma fold_http_get_open_handles:
  "open_handles (fold (\<lambda>(e, u) v. snd (http_get e u v)) calls w) = open_handles w"
  by (induction calls arbitrary: w) (simp_all add: http_get_open_handles split: prod.splits)

text \<open>The product in \<^verbatim>\<open>write_data\<close> is C's: it wraps at the width of \<^verbatim>\<open>size_t\<close>.\<close>

lemma write_data_wraps: "write_data [] (0x8000000000000000 :: size_t) 2 None = 0"
  by (simp add: write_data_def)

lemmas example_defs =
  example_env_def env_no_handle_def example_network_def example_strerror_def world0_def
  CURLE_OK_def CURLE_COULDNT_RESOLVE_HOST_def CURLE_OPERATION_TIMEDOUT_def

section \<open>The claims\<close>

text \<open>
  C1. When the handle is acquired and the request completes (the transfer ends with
  \<^verbatim>\<open>CURLE_OK\<close>), \<^verbatim>\<open>http_get\<close> returns the status code of the response: a server
  answering 404 gives 404.
\<close>

theorem http_get_returns_status_code:
  assumes "init_ok env" and "outcome (network env url) = CURLE_OK"
  shows "fst (http_get env url w) = response_code (network env url)"
  using assms by (simp add: http_get_handle)

theorem http_get_returns_status_code_witness:
  "init_ok example_env
   \<and> outcome (network example_env ''http://localhost:8080/missing'') = CURLE_OK
   \<and> fst (http_get example_env ''http://localhost:8080/missing'' world0) = 404"
proof -
  have h1: "init_ok example_env"
    by (simp add: example_defs)
  have h2: "outcome (network example_env ''http://localhost:8080/missing'') = CURLE_OK"
    by (simp add: example_defs)
  have "response_code (network example_env ''http://localhost:8080/missing'') = 404"
    by (simp add: example_defs)
  with http_get_returns_status_code [OF h1 h2, of world0] h1 h2 show ?thesis
    by simp
qed

text \<open>
  C2. When the request cannot be completed (the transfer ends with any result other than
  \<^verbatim>\<open>CURLE_OK\<close>: unresolvable host, refused connection, TLS failure, timeout, malformed
  URL), \<^verbatim>\<open>http_get\<close> returns 0, whatever the cause: two failing calls return the same
  value, so the caller cannot tell the causes apart.
\<close>

theorem http_get_failure_returns_zero:
  assumes "outcome (network env1 url1) \<noteq> CURLE_OK"
    and "outcome (network env2 url2) \<noteq> CURLE_OK"
  shows "fst (http_get env1 url1 w1) = 0
         \<and> fst (http_get env1 url1 w1) = fst (http_get env2 url2 w2)"
proof -
  have zero: "fst (http_get env url w) = 0" if "outcome (network env url) \<noteq> CURLE_OK"
    for env url w
    using that by (cases "init_ok env") (simp_all add: http_get_handle http_get_no_handle)
  from zero [OF assms(1)] zero [OF assms(2)] show ?thesis
    by simp
qed

theorem http_get_failure_returns_zero_witness:
  "outcome (network example_env ''http://example.invalid/'') \<noteq> CURLE_OK
   \<and> outcome (network example_env ''https://slow.example/'') \<noteq> CURLE_OK
   \<and> outcome (network example_env ''http://example.invalid/'')
       \<noteq> outcome (network example_env ''https://slow.example/'')
   \<and> fst (http_get example_env ''http://example.invalid/'' world0) = 0
   \<and> fst (http_get example_env ''http://example.invalid/'' world0)
       = fst (http_get example_env ''https://slow.example/'' world0)"
proof -
  have h1: "outcome (network example_env ''http://example.invalid/'') \<noteq> CURLE_OK"
    by (simp add: example_defs)
  have h2: "outcome (network example_env ''https://slow.example/'') \<noteq> CURLE_OK"
    by (simp add: example_defs)
  have h3: "outcome (network example_env ''http://example.invalid/'')
              \<noteq> outcome (network example_env ''https://slow.example/'')"
    by (simp add: example_defs)
  from http_get_failure_returns_zero [OF h1 h2, of world0 world0] h1 h2 h3 show ?thesis
    by simp
qed

text \<open>
  C3. A call acquires at most one handle and releases as many as it acquired, on the path
  without a handle, on the failure path and on the success path alike; the number of open
  handles after the call is the number before it, and so it is after any sequence of
  calls.
\<close>

theorem http_get_releases_handle:
  "acquired (snd (http_get env url w)) = acquired w + (if init_ok env then 1 else 0)
   \<and> released (snd (http_get env url w)) = released w + (if init_ok env then 1 else 0)
   \<and> open_handles (snd (http_get env url w)) = open_handles w
   \<and> open_handles (fold (\<lambda>(e, u) v. snd (http_get e u v)) calls w) = open_handles w"
proof -
  have counts:
    "acquired (snd (http_get env url w)) = acquired w + (if init_ok env then 1 else 0)
     \<and> released (snd (http_get env url w)) = released w + (if init_ok env then 1 else 0)"
    by (cases "init_ok env") (simp_all add: http_get_handle http_get_no_handle)
  from counts http_get_open_handles [of env url w] fold_http_get_open_handles [of calls w]
  show ?thesis by blast
qed

theorem http_get_releases_handle_witness:
  "acquired (snd (http_get example_env ''http://example.invalid/'' world0)) = 1
   \<and> released (snd (http_get example_env ''http://example.invalid/'' world0)) = 1
   \<and> open_handles (snd (http_get example_env ''http://example.invalid/'' world0)) = 0
   \<and> open_handles
        (fold (\<lambda>(e, u) v. snd (http_get e u v))
           [(example_env, ''http://localhost:8080/missing''),
            (env_no_handle, ''http://localhost:8080/missing''),
            (example_env, ''http://example.invalid/'')] world0) = 0"
proof -
  have h: "init_ok example_env" "acquired world0 = 0" "released world0 = 0"
    "open_handles world0 = 0"
    by (simp_all add: example_defs open_handles_def)
  from http_get_releases_handle [of example_env "''http://example.invalid/''" world0
      "[(example_env, ''http://localhost:8080/missing''),
        (env_no_handle, ''http://localhost:8080/missing''),
        (example_env, ''http://example.invalid/'')]"] h
  show ?thesis by simp
qed

text \<open>
  C4 (amended). When the handle is acquired and the request fails (the transfer ends with
  a result other than \<^verbatim>\<open>CURLE_OK\<close>), the call appends to the standard error exactly the
  text \<^verbatim>\<open>curl_easy_perform() failed: \<close>, the library's description of the result and a
  line feed: one line, when the description has no line feed of its own. A call that gets
  no handle also returns 0, and writes nothing.
\<close>

theorem http_get_failure_diagnostic:
  assumes "init_ok env" and "outcome (network env url) \<noteq> CURLE_OK"
  shows "stderr (snd (http_get env url w))
           = stderr w @ ''curl_easy_perform() failed: ''
               @ curl_easy_strerror env (outcome (network env url)) @ [CHR 0x0A]
         \<and> (CHR 0x0A \<notin> set (curl_easy_strerror env (outcome (network env url)))
            \<longrightarrow> count_list (drop (length (stderr w)) (stderr (snd (http_get env url w))))
                  (CHR 0x0A) = 1)"
proof -
  let ?reason = "curl_easy_strerror env (outcome (network env url))"
  let ?line = "''curl_easy_perform() failed: '' @ ?reason @ [CHR 0x0A]"
  have written: "stderr (snd (http_get env url w)) = stderr w @ ?line"
    using assms by (simp add: http_get_handle curl_easy_strerror_def)
  have "count_list ?line (CHR 0x0A) = 1" if "CHR 0x0A \<notin> set ?reason"
    using that by (simp add: count_list_0_iff)
  with written show ?thesis by simp
qed

theorem http_get_failure_diagnostic_witness:
  "init_ok example_env
   \<and> outcome (network example_env ''http://example.invalid/'') \<noteq> CURLE_OK
   \<and> stderr (snd (http_get example_env ''http://example.invalid/'' world0))
       = ''curl_easy_perform() failed: Could not resolve hostname'' @ [CHR 0x0A]
   \<and> count_list (stderr (snd (http_get example_env ''http://example.invalid/'' world0)))
        (CHR 0x0A) = 1"
proof -
  have h1: "init_ok example_env"
    by (simp add: example_defs)
  have h2: "outcome (network example_env ''http://example.invalid/'') \<noteq> CURLE_OK"
    by (simp add: example_defs)
  have reason:
    "curl_easy_strerror example_env (outcome (network example_env ''http://example.invalid/''))
       = ''Could not resolve hostname''"
    by (simp add: curl_easy_strerror_def example_defs)
  have empty: "stderr world0 = []"
    by (simp add: world0_def)
  from http_get_failure_diagnostic [OF h1 h2, of world0] h1 h2 show ?thesis
    unfolding reason empty by simp
qed

text \<open>
  The claim as first stated, for every call that returns the sentinel, fails where no
  handle is obtained: the call returns 0 and the standard error is still empty.
\<close>

theorem http_get_no_handle_no_diagnostic_counterexample:
  "fst (http_get env_no_handle ''http://example.invalid/'' world0) = 0
   \<and> stderr (snd (http_get env_no_handle ''http://example.invalid/'' world0)) = []"
  by (simp add: http_get_no_handle env_no_handle_def world0_def)

text \<open>
  C5. Two calls for which the library yields a handle alike, and whose transfers end with
  the same result and the same response code, return the same value, whatever the body
  chunks of either are; \<^verbatim>\<open>write_data\<close> itself gives the same answer for any two
  buffers.
\<close>

theorem http_get_body_independent:
  assumes "init_ok env1 = init_ok env2"
    and "outcome (network env1 url1) = outcome (network env2 url2)"
    and "response_code (network env1 url1) = response_code (network env2 url2)"
  shows "fst (http_get env1 url1 w1) = fst (http_get env2 url2 w2)
         \<and> write_data buffer1 sz nmemb up = write_data buffer2 sz nmemb up"
  using assms
  by (cases "init_ok env2") (simp_all add: http_get_handle http_get_no_handle write_data_def)

theorem http_get_body_independent_witness:
  "init_ok example_env = init_ok example_env
   \<and> outcome (network example_env ''http://localhost:8080/missing'')
       = outcome (network example_env ''http://localhost:8080/gone'')
   \<and> response_code (network example_env ''http://localhost:8080/missing'')
       = response_code (network example_env ''http://localhost:8080/gone'')
   \<and> chunks (network example_env ''http://localhost:8080/missing'')
       \<noteq> chunks (network example_env ''http://localhost:8080/gone'')
   \<and> fst (http_get example_env ''http://localhost:8080/missing'' world0)
       = fst (http_get example_env ''http://localhost:8080/gone'' world0)
   \<and> write_data [0x4E, 0x6F, 0x74] (1 :: size_t) 3 None
       = write_data [0x3C, 0x68, 0x31] 1 3 None"
proof -
  have h2: "outcome (network example_env ''http://localhost:8080/missing'')
              = outcome (network example_env ''http://localhost:8080/gone'')"
    by (simp add: example_defs)
  have h3: "response_code (network example_env ''http://localhost:8080/missing'')
              = response_code (network example_env ''http://localhost:8080/gone'')"
    by (simp add: example_defs)
  have differ: "chunks (network example_env ''http://localhost:8080/missing'')
                  \<noteq> chunks (network example_env ''http://localhost:8080/gone'')"
    by (simp add: example_defs)
  from http_get_body_independent [OF refl h2 h3, of world0 world0
      "[0x4E, 0x6F, 0x74]" "1 :: size_t" 3 None "[0x3C, 0x68, 0x31]"] h2 h3 differ
  show ?thesis by simp
qed

text \<open>
  C6. \<^verbatim>\<open>write_data\<close> returns \<^verbatim>\<open>size * nmemb\<close> for every input (the product of C, in
  \<^verbatim>\<open>size_t\<close>; it is the product of the two numbers whenever that fits the type). The
  library, which calls it with size 1 and the chunk's length, therefore gets every chunk
  acknowledged in full and never aborts the transfer on the callback's account: a call
  that has a handle receives the whole body the transport hands over, and writes none of
  it to the standard output.
\<close>

theorem write_data_acknowledges_all:
  "write_data buffer sz nmemb up = sz * nmemb
   \<and> (unat sz * unat nmemb < 2 ^ LENGTH('w)
      \<longrightarrow> unat (write_data buffer sz nmemb up) = unat sz * unat nmemb)
   \<and> (opt_writefunction c = Some write_data
      \<longrightarrow> deliver c cs w
          = (True, w\<lparr>body_received := body_received w + sum_list (map length cs)\<rparr>))
   \<and> (init_ok env
      \<longrightarrow> body_received (snd (http_get env url w))
            = body_received w + sum_list (map length (chunks (network env url)))
          \<and> stdout (snd (http_get env url w)) = stdout w)"
  for sz nmemb :: "'w::len word"
proof -
  have product: "write_data buffer sz nmemb up = sz * nmemb"
    by (simp add: write_data_def)
  have fits: "unat (write_data buffer sz nmemb up) = unat sz * unat nmemb"
    if "unat sz * unat nmemb < 2 ^ LENGTH('w)"
    using that by (simp add: write_data_def unat_word_ariths)
  have whole: "body_received (snd (http_get env url w))
                 = body_received w + sum_list (map length (chunks (network env url)))
               \<and> stdout (snd (http_get env url w)) = stdout w"
    if "init_ok env"
    using that by (simp add: http_get_handle)
  from product fits whole deliver_write_data [of c cs w] show ?thesis
    by blast
qed

theorem write_data_acknowledges_all_witness:
  "write_data [0x4E, 0x6F, 0x74] (1 :: size_t) 3 None = 3
   \<and> unat (write_data [0x4E, 0x6F, 0x74] (1 :: size_t) 3 None) = 3
   \<and> deliver
        \<lparr>opt_url = None, opt_writefunction = Some write_data, opt_writedata = None,
         info_response_code = 0\<rparr>
        [[0x4E, 0x6F, 0x74], [0x20, 0x46, 0x6F, 0x75, 0x6E, 0x64]] world0
       = (True, world0\<lparr>body_received := 9\<rparr>)
   \<and> body_received (snd (http_get example_env ''http://localhost:8080/missing'' world0)) = 9
   \<and> stdout (snd (http_get example_env ''http://localhost:8080/missing'' world0)) = []"
proof -
  let ?c = "\<lparr>opt_url = None, opt_writefunction = Some write_data, opt_writedata = None,
             info_response_code = 0\<rparr>"
  let ?body = "[[0x4E, 0x6F, 0x74], [0x20, 0x46, 0x6F, 0x75, 0x6E, 0x64]] :: byte list list"
  let ?url = "''http://localhost:8080/missing''"
  have h1: "unat (1 :: size_t) * unat (3 :: size_t) < 2 ^ LENGTH(64)"
    by simp
  have h2: "opt_writefunction ?c = Some write_data"
    by simp
  have h3: "init_ok example_env"
    by (simp add: example_defs)
  have body: "chunks (network example_env ?url) = ?body"
    by (simp add: example_defs)
  have total: "body_received world0 + sum_list (map length ?body) = 9"
    by (simp add: world0_def)
  have out: "stdout world0 = []"
    by (simp add: world0_def)
  note run = write_data_acknowledges_all [of "[0x4E, 0x6F, 0x74]" "1 :: size_t" 3 None
      ?c ?body world0 example_env ?url]
  from run have product: "write_data [0x4E, 0x6F, 0x74] (1 :: size_t) 3 None = 1 * 3"
    by blast
  from run h1 have fits:
    "unat (write_data [0x4E, 0x6F, 0x74] (1 :: size_t) 3 None)
       = unat (1 :: size_t) * unat (3 :: size_t)"
    by blast
  from run h2 have accepted:
    "deliver ?c ?body world0
       = (True, world0\<lparr>body_received := body_received world0 + sum_list (map length ?body)\<rparr>)"
    by blast
  from run h3 have whole:
    "body_received (snd (http_get example_env ?url world0))
       = body_received world0 + sum_list (map length (chunks (network example_env ?url)))"
    and silent: "stdout (snd (http_get example_env ?url world0)) = stdout world0"
    by blast+
  from product have c1: "write_data [0x4E, 0x6F, 0x74] (1 :: size_t) 3 None = 3"
    by simp
  from fits have c2: "unat (write_data [0x4E, 0x6F, 0x74] (1 :: size_t) 3 None) = 3"
    by simp
  from accepted have c3: "deliver ?c ?body world0 = (True, world0\<lparr>body_received := 9\<rparr>)"
    unfolding total .
  from whole have c4: "body_received (snd (http_get example_env ?url world0)) = 9"
    unfolding body total .
  from silent have c5: "stdout (snd (http_get example_env ?url world0)) = []"
    unfolding out .
  from c1 c2 c3 c4 c5 show ?thesis
    by blast
qed

text \<open>
  C7. A call issues the request at most once: with a handle exactly one request, for the
  URL given, and without a handle none; a failed transfer is not tried again.
\<close>

theorem http_get_single_request:
  "requests (snd (http_get env url w)) = requests w @ (if init_ok env then [url] else [])
   \<and> length (requests (snd (http_get env url w))) \<le> length (requests w) + 1"
  by (cases "init_ok env") (simp_all add: http_get_handle http_get_no_handle)

theorem http_get_single_request_witness:
  "outcome (network example_env ''http://example.invalid/'') \<noteq> CURLE_OK
   \<and> requests (snd (http_get example_env ''http://example.invalid/'' world0))
       = [''http://example.invalid/'']"
proof -
  have h1: "outcome (network example_env ''http://example.invalid/'') \<noteq> CURLE_OK"
    by (simp add: example_defs)
  have h2: "init_ok example_env" "requests world0 = []"
    by (simp_all add: example_defs)
  from http_get_single_request [of example_env "''http://example.invalid/''" world0] h1 h2
  show ?thesis by simp
qed

text \<open>
  C8. When \<^verbatim>\<open>curl_easy_init\<close> yields no handle, \<^verbatim>\<open>http_get\<close> returns 0 and changes
  nothing: no request is issued and nothing is written to the standard error.
\<close>

theorem http_get_without_handle:
  assumes "\<not> init_ok env"
  shows "fst (http_get env url w) = 0
         \<and> requests (snd (http_get env url w)) = requests w
         \<and> stderr (snd (http_get env url w)) = stderr w
         \<and> snd (http_get env url w) = w"
  using assms by (simp add: http_get_no_handle)

theorem http_get_without_handle_witness:
  "\<not> init_ok env_no_handle
   \<and> fst (http_get env_no_handle ''http://localhost:8080/missing'' world0) = 0
   \<and> requests (snd (http_get env_no_handle ''http://localhost:8080/missing'' world0)) = []
   \<and> stderr (snd (http_get env_no_handle ''http://localhost:8080/missing'' world0)) = []
   \<and> snd (http_get env_no_handle ''http://localhost:8080/missing'' world0) = world0"
proof -
  have h: "\<not> init_ok env_no_handle"
    by (simp add: env_no_handle_def)
  have start: "requests world0 = []" "stderr world0 = []"
    by (simp_all add: world0_def)
  from http_get_without_handle [OF h, of "''http://localhost:8080/missing''" world0] h start
  show ?thesis by simp
qed

text \<open>
  C9. A return value of 0 does not tell failure from success: there is a behaviour of the
  library with a handle, a transfer ending in \<^verbatim>\<open>CURLE_OK\<close> and a reported response
  code of 0, where \<^verbatim>\<open>http_get\<close> returns 0, the code the library reports, and nothing is
  written to the standard error.
\<close>

theorem http_get_zero_on_success:
  "\<exists>env url w. init_ok env \<and> outcome (network env url) = CURLE_OK
     \<and> response_code (network env url) = 0
     \<and> fst (http_get env url w) = response_code (network env url)
     \<and> fst (http_get env url w) = 0
     \<and> stderr (snd (http_get env url w)) = stderr w"
proof -
  have h1: "init_ok example_env"
    by (simp add: example_defs)
  have h2: "outcome (network example_env ''file:///etc/hostname'') = CURLE_OK"
    by (simp add: example_defs)
  have h3: "response_code (network example_env ''file:///etc/hostname'') = 0"
    by (simp add: example_defs)
  have "fst (http_get example_env ''file:///etc/hostname'' world0) = 0
        \<and> stderr (snd (http_get example_env ''file:///etc/hostname'' world0)) = stderr world0"
    using h2 h3 by (simp add: http_get_handle [OF h1])
  with h1 h2 h3 show ?thesis by metis
qed

text \<open>
  C10. When the handle is acquired and the request completes, the standard error after
  the call is the standard error before it.
\<close>

theorem http_get_success_keeps_stderr:
  assumes "init_ok env" and "outcome (network env url) = CURLE_OK"
  shows "stderr (snd (http_get env url w)) = stderr w"
  using assms by (simp add: http_get_handle)

theorem http_get_success_keeps_stderr_witness:
  "init_ok example_env
   \<and> outcome (network example_env ''http://localhost:8080/empty'') = CURLE_OK
   \<and> stderr (snd (http_get example_env ''http://localhost:8080/empty''
                     (world0\<lparr>stderr := ''earlier output''\<rparr>))) = ''earlier output''"
proof -
  have h1: "init_ok example_env"
    by (simp add: example_defs)
  have h2: "outcome (network example_env ''http://localhost:8080/empty'') = CURLE_OK"
    by (simp add: example_defs)
  from http_get_success_keeps_stderr [OF h1 h2, of "world0\<lparr>stderr := ''earlier output''\<rparr>"]
    h1 h2
  show ?thesis by simp
qed

end
